theory Spec2Isabelle
  imports Complex_Main "HOL-Library.Word" "HOL-Library.Sublist" "HOL-Library.AList"
begin

section \<open>JavaScript strings\<close>

text \<open>
  A JavaScript string is a sequence of 16-bit code units. The literals of the source are
  ASCII and are written through \<open>js\<close>.
\<close>

type_synonym js_string = "16 word list"

definition js :: "string \<Rightarrow> js_string" where
  "js s = map of_char s"

text \<open>Truthiness of a string value: the empty string is falsy.\<close>

definition truthy :: "js_string \<Rightarrow> bool" where
  "truthy s = (s \<noteq> [])"

text \<open>Truthiness of a value that may be \<open>undefined\<close>.\<close>

definition truthy_opt :: "js_string option \<Rightarrow> bool" where
  "truthy_opt v = (case v of None \<Rightarrow> False | Some s \<Rightarrow> truthy s)"

text \<open>
  \<open>String.prototype.trim\<close> strips WhiteSpace and LineTerminator code units from both
  ends.
\<close>

definition is_white_space :: "16 word \<Rightarrow> bool" where
  "is_white_space c =
     (c \<in> set [0x0009, 0x000A, 0x000B, 0x000C, 0x000D, 0x0020, 0x00A0, 0x1680,
                0x2000, 0x2001, 0x2002, 0x2003, 0x2004, 0x2005, 0x2006, 0x2007,
                0x2008, 0x2009, 0x200A, 0x2028, 0x2029, 0x202F, 0x205F, 0x3000,
                0xFEFF])"

definition trim :: "js_string \<Rightarrow> js_string" where
  "trim s = rev (dropWhile is_white_space (rev (dropWhile is_white_space s)))"

text \<open>
  \<open>String.prototype.replace\<close> with a string pattern: the first occurrence of the
  pattern is found by code-unit comparison (StringIndexOf from position 0), and the
  replacement string is expanded by GetSubstitution, where \<open>$$\<close> stands for a dollar
  sign, \<open>$&\<close> for the matched text, \<open>$`\<close> for the text before the match and \<open>$'\<close>
  for the text after it. A string pattern has no captures, so a dollar sign followed by
  anything else stays as it is.
\<close>

fun StringIndexOf :: "js_string \<Rightarrow> js_string \<Rightarrow> nat option" where
  "StringIndexOf [] searchValue = (if searchValue = [] then Some 0 else None)"
| "StringIndexOf (c # cs) searchValue =
     (if prefix searchValue (c # cs) then Some 0
      else map_option Suc (StringIndexOf cs searchValue))"

fun GetSubstitution :: "js_string \<Rightarrow> js_string \<Rightarrow> js_string \<Rightarrow> js_string \<Rightarrow> js_string" where
  "GetSubstitution matched preceding following [] = []"
| "GetSubstitution matched preceding following [c] = [c]"
| "GetSubstitution matched preceding following (c # d # r) =
     (if c = 0x24 \<and> d = 0x24 then 0x24 # GetSubstitution matched preceding following r
      else if c = 0x24 \<and> d = 0x26 then matched @ GetSubstitution matched preceding following r
      else if c = 0x24 \<and> d = 0x60 then preceding @ GetSubstitution matched preceding following r
      else if c = 0x24 \<and> d = 0x27 then following @ GetSubstitution matched preceding following r
      else c # GetSubstitution matched preceding following (d # r))"

definition String_replace :: "js_string \<Rightarrow> js_string \<Rightarrow> js_string \<Rightarrow> js_string" where
  "String_replace string searchValue replaceValue =
     (case StringIndexOf string searchValue of
        None \<Rightarrow> string
      | Some pos \<Rightarrow>
          (let preceding = take pos string;
               following = drop (pos + length searchValue) string
           in preceding @ GetSubstitution searchValue preceding following replaceValue
                @ following))"

text \<open>
  The replacement the specification words describe, for comparison: the first occurrence
  of \<open>originalText\<close> is replaced by \<open>suggestedText\<close> taken literally, and a text without
  an occurrence is returned as it is.
\<close>

fun spec_replace_first :: "js_string \<Rightarrow> js_string \<Rightarrow> js_string \<Rightarrow> js_string" where
  "spec_replace_first [] originalText suggestedText =
     (if originalText = [] then suggestedText else [])"
| "spec_replace_first (c # cs) originalText suggestedText =
     (if prefix originalText (c # cs) then suggestedText @ drop (length originalText) (c # cs)
      else c # spec_replace_first cs originalText suggestedText)"


section \<open>JavaScript values\<close>

text \<open>
  The values \<open>JSON.parse\<close> produces. An object is the list of its properties in
  insertion order; a parsed object has every key once.
\<close>

datatype json =
    JNull
  | JBool bool
  | JNum real
  | JStr js_string
  | JArr "json list"
  | JObj "(js_string \<times> json) list"

text \<open>
  A value that may be \<open>null\<close> is an option; the parsed value \<open>null\<close> is that same
  \<open>null\<close>.
\<close>

definition nullable :: "json \<Rightarrow> json option" where
  "nullable v = (case v of JNull \<Rightarrow> None | _ \<Rightarrow> Some v)"

text \<open>
  What the runtime throws or a promise is rejected with: the missing API key of
  \<open>getAiClient\<close>, a failure of the remote service or its transport, and a \<open>TypeError\<close>.
\<close>

datatype js_error = ApiKeyNotFound | ServiceFailure | TypeError

text \<open>
  The comparison \<open>x > y\<close> of a property value with a number. The value is converted by
  ToNumber: \<open>undefined\<close> (no such property) and a plain object give NaN, \<open>null\<close> gives 0,
  a boolean 0 or 1, a number itself. A string is read as a numeric literal and an array
  is joined to a string first; the model does not compute these two conversions and
  takes them from the runtime (\<open>None\<close> is NaN). A comparison with NaN is false.
\<close>

fun ToNumber :: "(json \<Rightarrow> real option) \<Rightarrow> json option \<Rightarrow> real option" where
  "ToNumber conv None = None"
| "ToNumber conv (Some JNull) = Some 0"
| "ToNumber conv (Some (JBool b)) = Some (if b then 1 else 0)"
| "ToNumber conv (Some (JNum n)) = Some n"
| "ToNumber conv (Some (JStr s)) = conv (JStr s)"
| "ToNumber conv (Some (JArr xs)) = conv (JArr xs)"
| "ToNumber conv (Some (JObj props)) = None"

definition greater_than :: "real option \<Rightarrow> real \<Rightarrow> bool" where
  "greater_than x y = (case x of None \<Rightarrow> False | Some n \<Rightarrow> n > y)"

text \<open>
  The property read \<open>v.score\<close>: a TypeError on \<open>null\<close>, the property of an object
  when it has one, and \<open>undefined\<close> on every other value.
\<close>

definition get_score :: "json \<Rightarrow> js_error + json option" where
  "get_score v =
     (case v of
        JNull \<Rightarrow> Inl TypeError
      | JObj props \<Rightarrow> Inr (map_of props (js ''score''))
      | _ \<Rightarrow> Inr None)"


section \<open>Data model (types.ts)\<close>

datatype AnalysisType = GRAMMAR | CLARITY | SOURCES | SUMMARY | AI_CHECK

datatype SuggestionType = Grammar | Spelling | Style | Clarity

datatype Severity = Critical | Major | Minor

record Suggestion =
  suggestion_id :: js_string
  originalText :: js_string
  suggestedText :: js_string
  suggestion_explanation :: js_string
  suggestion_type :: SuggestionType
  severity :: Severity

text \<open>The \<open>url\<close> of a source is the \<open>uri\<close> of a grounding chunk, which may be undefined.\<close>

record SourceMatch =
  url :: "js_string option"
  source_title :: js_string
  snippet :: "js_string option"

datatype VerificationStatus = Verified | Questionable | Falsified | Unverifiable

record VerificationResult =
  claim_id :: js_string
  claim :: js_string
  status :: VerificationStatus
  claim_explanation :: js_string
  claim_sources :: "SourceMatch list"

datatype AiLabel = LikelyHuman | MixedSignals | LikelyAIGenerated

record AiDetectionResult =
  score :: real
  label :: AiLabel
  ai_explanation :: js_string

text \<open>
  \<open>AiDetectionResult\<close> is the declared type of an AI-detection result. The gateway
  casts the parsed response body to it without a check, so what reaches the session at
  run time is the parsed JSON value; a result of the declared type is the object below.
\<close>

definition AiLabel_string :: "AiLabel \<Rightarrow> js_string" where
  "AiLabel_string l =
     (case l of
        LikelyHuman \<Rightarrow> js ''Likely Human''
      | MixedSignals \<Rightarrow> js ''Mixed Signals''
      | LikelyAIGenerated \<Rightarrow> js ''Likely AI-Generated'')"

definition AiDetectionResult_json :: "AiDetectionResult \<Rightarrow> json" where
  "AiDetectionResult_json r =
     JObj [(js ''score'', JNum (score r)),
           (js ''label'', JStr (AiLabel_string (label r))),
           (js ''explanation'', JStr (ai_explanation r))]"

record AnalysisState =
  isAnalyzing :: bool
  suggestions :: "Suggestion list"
  sources :: "SourceMatch list"
  claimVerification :: "VerificationResult list"
  summary :: "js_string option"
  aiDetection :: "json option"
  error :: "js_string option"

record DocumentState =
  doc_text :: js_string
  title :: js_string


section \<open>The model gateway (services/geminiService.ts)\<close>

text \<open>
  The part of a \<open>generateContent\<close> response the gateway reads: the \<open>text\<close> of the
  response, which may be undefined, and the grounding chunks at
  \<open>candidates?.[0]?.groundingMetadata?.groundingChunks\<close>, undefined when a link of that
  chain is.
\<close>

record GroundingChunkWeb =
  uri :: "js_string option"
  web_title :: "js_string option"

record GroundingChunk =
  web :: "GroundingChunkWeb option"

record GenerateContentResponse =
  response_text :: "js_string option"
  groundingChunks :: "GroundingChunk list option"

text \<open>
  The six requests, each with the text the operation puts into it; the instructions and
  the response schema are fixed for each kind of request.
\<close>

datatype Request =
    GrammarRequest js_string
  | SourcesRequest js_string
  | ClaimsRequest js_string
  | SummaryRequest js_string
  | AiDetectionRequest js_string
  | TranscriptionRequest js_string js_string

text \<open>
  The platform the gateway runs on: the configured API key, the remote service (a
  request is answered or fails), \<open>JSON.parse\<close> (\<open>None\<close> when it throws a
  SyntaxError) and the clock (\<open>Date_now env i\<close> is what \<open>Date.now()\<close> returns in the
  callback for index \<open>i\<close>).
\<close>

record Env =
  API_KEY :: "js_string option"
  generateContent :: "Request \<Rightarrow> js_error + GenerateContentResponse"
  JSON_parse :: "js_string \<Rightarrow> json option"
  Date_now :: "nat \<Rightarrow> nat"

definition getAiClient :: "Env \<Rightarrow> js_error + (Request \<Rightarrow> js_error + GenerateContentResponse)" where
  "getAiClient env =
     (if \<not> truthy_opt (API_KEY env) then Inl ApiKeyNotFound
      else Inr (generateContent env))"

text \<open>
  A non-negative integer in a template literal is written in decimal (for the integers
  below \<open>10^21\<close>, which indices and clock readings are).
\<close>

function Number_toString :: "nat \<Rightarrow> js_string" where
  "Number_toString n =
     (if n < 10 then [of_nat (48 + n)]
      else Number_toString (n div 10) @ [of_nat (48 + n mod 10)])"
  by pat_completeness auto
termination
  by (relation "measure (\<lambda>n. n)") auto

declare Number_toString.simps [simp del]

text \<open>
  The own enumerable properties an object spread copies from a JSON value, and
  \<open>Array.prototype.map\<close> on a parsed value: a value that is not an array has no
  \<open>map\<close> method, so the call throws a TypeError.
\<close>

fun spread :: "json \<Rightarrow> (js_string \<times> json) list" where
  "spread (JObj props) = props"
| "spread (JArr xs) = map (\<lambda>(i, x). (Number_toString i, x)) (enumerate 0 xs)"
| "spread (JStr s) = map (\<lambda>(i, c). (Number_toString i, JStr [c])) (enumerate 0 s)"
| "spread JNull = []"
| "spread (JBool b) = []"
| "spread (JNum n) = []"

definition Array_map :: "(json \<Rightarrow> nat \<Rightarrow> 'b) \<Rightarrow> json \<Rightarrow> js_error + 'b list" where
  "Array_map f data =
     (case data of
        JArr items \<Rightarrow> Inr (map (\<lambda>(index, item). f item index) (enumerate 0 items))
      | _ \<Rightarrow> Inl TypeError)"

text \<open>
  The operations return what they compute at run time: the three that parse a JSON body
  hand the parsed values on without checking them against the declared result type.
\<close>

definition checkGrammarAndStyle :: "Env \<Rightarrow> js_string \<Rightarrow> js_error + json list" where
  "checkGrammarAndStyle env text0 =
     (case getAiClient env of
        Inl e \<Rightarrow> Inl e
      | Inr ai \<Rightarrow>
          (case ai (GrammarRequest text0) of
             Inl e \<Rightarrow> Inl e
           | Inr response \<Rightarrow>
               (case response_text response of
                  None \<Rightarrow> Inr []
                | Some body \<Rightarrow>
                    if truthy body then
                      (case JSON_parse env body of
                         None \<Rightarrow> Inr []
                       | Some data \<Rightarrow>
                           (case Array_map
                                   (\<lambda>item index.
                                      JObj (AList.update (js ''id'')
                                        (JStr (js ''suggestion-'' @ Number_toString index
                                               @ js ''-'' @ Number_toString (Date_now env index)))
                                        (spread item)))
                                   data of
                              Inl e \<Rightarrow> Inr []
                            | Inr items \<Rightarrow> Inr items))
                    else Inr [])))"

text \<open>The \<open>sources\<close> array the \<open>forEach\<close> loop fills from the grounding chunks.\<close>

fun push_sources :: "GroundingChunk list \<Rightarrow> SourceMatch list" where
  "push_sources [] = []"
| "push_sources (chunk # rest) =
     (case web chunk of
        None \<Rightarrow> push_sources rest
      | Some w \<Rightarrow>
          \<lparr> url = uri w,
            source_title =
              (case web_title w of
                 None \<Rightarrow> js ''External Source''
               | Some t \<Rightarrow> if truthy t then t else js ''External Source''),
            snippet = None \<rparr> # push_sources rest)"

text \<open>\<open>Array.prototype.findIndex\<close>: the first index that satisfies the predicate, or -1.\<close>

fun findIndex :: "('a \<Rightarrow> bool) \<Rightarrow> 'a list \<Rightarrow> int" where
  "findIndex p [] = - 1"
| "findIndex p (x # xs) =
     (if p x then 0
      else (let i = findIndex p xs in if i < 0 then - 1 else i + 1))"

text \<open>\<open>sources.filter((v, i, a) => a.findIndex(t => t.url === v.url) === i)\<close>.\<close>

definition uniqueSources :: "SourceMatch list \<Rightarrow> SourceMatch list" where
  "uniqueSources a =
     map snd (filter (\<lambda>(i, v). findIndex (\<lambda>t. url t = url v) a = int i) (enumerate 0 a))"

definition verifySources :: "Env \<Rightarrow> js_string \<Rightarrow> js_error + SourceMatch list" where
  "verifySources env text0 =
     (case getAiClient env of
        Inl e \<Rightarrow> Inl e
      | Inr ai \<Rightarrow>
          (case ai (SourcesRequest (take 1000 text0)) of
             Inl e \<Rightarrow> Inl e
           | Inr response \<Rightarrow>
               Inr (uniqueSources
                      (case groundingChunks response of
                         None \<Rightarrow> []
                       | Some chunks \<Rightarrow> push_sources chunks))))"

definition verifyTextClaims :: "Env \<Rightarrow> js_string \<Rightarrow> js_error + json list" where
  "verifyTextClaims env text0 =
     (case getAiClient env of
        Inl e \<Rightarrow> Inl e
      | Inr ai \<Rightarrow>
          (case ai (ClaimsRequest text0) of
             Inl e \<Rightarrow> Inl e
           | Inr response \<Rightarrow>
               (case response_text response of
                  None \<Rightarrow> Inr []
                | Some body \<Rightarrow>
                    if truthy body then
                      (case JSON_parse env body of
                         None \<Rightarrow> Inr []
                       | Some data \<Rightarrow>
                           (case Array_map
                                   (\<lambda>item index.
                                      JObj (AList.update (js ''id'')
                                        (JStr (js ''claim-'' @ Number_toString index
                                               @ js ''-'' @ Number_toString (Date_now env index)))
                                        (spread item)))
                                   data of
                              Inl e \<Rightarrow> Inr []
                            | Inr items \<Rightarrow> Inr items))
                    else Inr [])))"

definition generateSummary :: "Env \<Rightarrow> js_string \<Rightarrow> js_error + js_string" where
  "generateSummary env text0 =
     (case getAiClient env of
        Inl e \<Rightarrow> Inl e
      | Inr ai \<Rightarrow>
          (case ai (SummaryRequest text0) of
             Inl e \<Rightarrow> Inl e
           | Inr response \<Rightarrow>
               (case response_text response of
                  None \<Rightarrow> Inr (js ''Could not generate summary.'')
                | Some body \<Rightarrow>
                    if truthy body then Inr body
                    else Inr (js ''Could not generate summary.''))))"

definition detectAIContent :: "Env \<Rightarrow> js_string \<Rightarrow> js_error + json" where
  "detectAIContent env text0 =
     (case getAiClient env of
        Inl e \<Rightarrow> Inl e
      | Inr ai \<Rightarrow>
          (case ai (AiDetectionRequest (take 2000 text0)) of
             Inl e \<Rightarrow> Inl e
           | Inr response \<Rightarrow>
               (let fallback = JObj [(js ''score'', JNum 0),
                                     (js ''label'', JStr (js ''Likely Human'')),
                                     (js ''explanation'', JStr (js ''Could not analyze.''))]
                in case response_text response of
                     None \<Rightarrow> Inr fallback
                   | Some body \<Rightarrow>
                       if truthy body then
                         (case JSON_parse env body of
                            None \<Rightarrow> Inr fallback
                          | Some parsed \<Rightarrow> Inr parsed)
                       else Inr fallback)))"

definition extractTextFromFile :: "Env \<Rightarrow> js_string \<Rightarrow> js_string \<Rightarrow> js_error + js_string" where
  "extractTextFromFile env fileBase64 mimeType =
     (case getAiClient env of
        Inl e \<Rightarrow> Inl e
      | Inr ai \<Rightarrow>
          (case ai (TranscriptionRequest fileBase64 mimeType) of
             Inl e \<Rightarrow> Inl e
           | Inr response \<Rightarrow>
               (case response_text response of
                  None \<Rightarrow> Inr []
                | Some body \<Rightarrow> Inr body)))"







text \<open>
  Deduplication by \<open>url\<close> in first-seen order as the specification words it, for
  comparison with \<open>uniqueSources\<close>: an entry stays, and the later entries with its
  \<open>url\<close> go.
\<close>

fun dedupe_by_url :: "SourceMatch list \<Rightarrow> SourceMatch list" where
  "dedupe_by_url [] = []"
| "dedupe_by_url (x # xs) = x # filter (\<lambda>y. url y \<noteq> url x) (dedupe_by_url xs)"


section \<open>Session state of the App component (App.tsx)\<close>

text \<open>The five \<open>useState\<close> cells of the component.\<close>

record Session =
  doc :: DocumentState
  selectedText :: js_string
  activeTab :: AnalysisType
  analysis :: AnalysisState
  isUploading :: bool

subsection \<open>applySuggestion\<close>

definition applySuggestion :: "Suggestion \<Rightarrow> Session \<Rightarrow> Session" where
  "applySuggestion suggestion s =
     (let s1 = s\<lparr> doc := (doc s)\<lparr> doc_text :=
                  String_replace (doc_text (doc s)) (originalText suggestion)
                    (suggestedText suggestion) \<rparr> \<rparr>
      in s1\<lparr> analysis := (analysis s1)\<lparr> suggestions :=
                  filter (\<lambda>x. suggestion_id x \<noteq> suggestion_id suggestion)
                    (suggestions (analysis s1)) \<rparr> \<rparr>)"

subsection \<open>The model gateway, as the orchestrator sees it\<close>

text \<open>
  A gateway operation is asynchronous: its promise is fulfilled with a value or rejected
  with an error, and an operation is a function from its arguments to the way its
  promise settles. The full scan and the selection verification read nothing of a
  suggestion, a source or a claim they receive (they store the lists and take their
  lengths), so these stand at their declared types; the AI-detection result, whose
  \<open>score\<close> the full scan reads, is the JSON value \<open>detectAIContent\<close> is fulfilled
  with. The record also carries the
  conversion of strings and arrays to numbers that the comparison of the score takes
  from the runtime.
\<close>

record Gateway =
  gw_checkGrammarAndStyle :: "js_string \<Rightarrow> js_error + Suggestion list"
  gw_verifySources :: "js_string \<Rightarrow> js_error + SourceMatch list"
  gw_generateSummary :: "js_string \<Rightarrow> js_error + js_string"
  gw_detectAIContent :: "js_string \<Rightarrow> js_error + json"
  gw_verifyTextClaims :: "js_string \<Rightarrow> js_error + VerificationResult list"
  gw_extractTextFromFile :: "js_string \<Rightarrow> js_string \<Rightarrow> js_error + js_string"
  rt_ToNumber :: "json \<Rightarrow> real option"

text \<open>The gateway calls a handler issues, in the order of issue.\<close>

datatype GatewayCall =
    CheckGrammarAndStyle js_string
  | VerifySources js_string
  | GenerateSummary js_string
  | DetectAIContent js_string
  | VerifyTextClaims js_string
  | ExtractTextFromFile js_string js_string

text \<open>
  \<open>Promise.all\<close> over the four requests of a full scan: fulfilled with the four values
  when all four are fulfilled, rejected as soon as one is rejected.
\<close>

definition Promise_all4 ::
  "js_error + 'a \<Rightarrow> js_error + 'b \<Rightarrow> js_error + 'c \<Rightarrow> js_error + 'd
     \<Rightarrow> js_error + ('a \<times> 'b \<times> 'c \<times> 'd)" where
  "Promise_all4 p1 p2 p3 p4 =
     (case p1 of Inl e \<Rightarrow> Inl e | Inr a \<Rightarrow>
      (case p2 of Inl e \<Rightarrow> Inl e | Inr b \<Rightarrow>
       (case p3 of Inl e \<Rightarrow> Inl e | Inr c \<Rightarrow>
        (case p4 of Inl e \<Rightarrow> Inl e | Inr d \<Rightarrow> Inr (a, b, c, d)))))"

text \<open>
  A handler run is the list of gateway calls it issued and the list of session states it
  produced: one state for each stretch of state updates between two suspensions (the
  updates before an \<open>await\<close>, then the updates after it). A handler that returns at once
  produces no state. The session after the run is the last state produced, or the state
  before when there is none.
\<close>

type_synonym run = "GatewayCall list \<times> Session list"

definition final_state :: "Session \<Rightarrow> run \<Rightarrow> Session" where
  "final_state s r = last (s # snd r)"

subsection \<open>runAnalysis\<close>

text \<open>
  The \<open>try\<close> block stores the four results and then reads \<open>aiDetection.score\<close>; when
  that read throws, the \<open>catch\<close> block runs on the session with the results stored.
\<close>

definition runAnalysis :: "Gateway \<Rightarrow> Session \<Rightarrow> run" where
  "runAnalysis gw s =
     (if \<not> truthy (trim (doc_text (doc s))) then ([], [])
      else
        (let t = doc_text (doc s);
             s1 = s\<lparr> analysis := (analysis s)\<lparr> isAnalyzing := True, error := None,
                                                claimVerification := [] \<rparr> \<rparr>;
             issued = [CheckGrammarAndStyle t, VerifySources t, GenerateSummary t,
                       DetectAIContent t]
         in case Promise_all4 (gw_checkGrammarAndStyle gw t) (gw_verifySources gw t)
                   (gw_generateSummary gw t) (gw_detectAIContent gw t) of
              Inr (suggestions', sources', summary', aiDetection') \<Rightarrow>
                (let s2 = s1\<lparr> analysis :=
                            \<lparr> isAnalyzing = False, suggestions = suggestions',
                              sources = sources', claimVerification = [],
                              summary = Some summary', aiDetection = nullable aiDetection',
                              error = None \<rparr> \<rparr>
                 in case get_score aiDetection' of
                      Inr score' \<Rightarrow>
                        (issued,
                         [s1,
                          if greater_than (ToNumber (rt_ToNumber gw) score') 80
                            then s2\<lparr> activeTab := AI_CHECK \<rparr>
                          else if length suggestions' > 0 then s2\<lparr> activeTab := GRAMMAR \<rparr>
                          else if length sources' > 0 then s2\<lparr> activeTab := SOURCES \<rparr>
                          else s2])
                    | Inl err \<Rightarrow>
                        (issued,
                         [s1,
                          s2\<lparr> analysis := (analysis s2)\<lparr> isAnalyzing := False,
                                error := Some (js ''Failed to complete analysis. Please check your internet connection or API key.'') \<rparr> \<rparr>]))
            | Inl err \<Rightarrow>
                (issued,
                 [s1,
                  s1\<lparr> analysis := (analysis s1)\<lparr> isAnalyzing := False,
                        error := Some (js ''Failed to complete analysis. Please check your internet connection or API key.'') \<rparr> \<rparr>])))"

subsection \<open>verifySelection\<close>

definition verifySelection :: "Gateway \<Rightarrow> Session \<Rightarrow> run" where
  "verifySelection gw s =
     (if \<not> truthy (selectedText s) then ([], [])
      else
        (let s1 = s\<lparr> analysis := (analysis s)\<lparr> isAnalyzing := True, error := None \<rparr> \<rparr>
                   \<lparr> activeTab := SOURCES \<rparr>
         in case gw_verifyTextClaims gw (selectedText s) of
              Inr claims \<Rightarrow>
                ([VerifyTextClaims (selectedText s)],
                 [s1,
                  s1\<lparr> analysis := (analysis s1)\<lparr> isAnalyzing := False,
                                                     claimVerification := claims \<rparr> \<rparr>])
            | Inl err \<Rightarrow>
                ([VerifyTextClaims (selectedText s)],
                 [s1,
                  s1\<lparr> analysis := (analysis s1)\<lparr> isAnalyzing := False,
                        error := Some (js ''Failed to verify selected text.'') \<rparr> \<rparr>])))"

subsection \<open>handleFileUpload\<close>

text \<open>
  The chosen file, and what the \<open>FileReader\<close> does with it: \<open>readAsDataURL\<close> throws,
  or the load event never fires, or it fires with the data URL as the result.
\<close>

record File =
  file_name :: js_string
  file_type :: js_string

datatype ReadOutcome = ReadThrows | NoLoadEvent | Loaded js_string

text \<open>\<open>String.prototype.split\<close> with a one-unit separator, and array indexing.\<close>

fun String_split :: "16 word \<Rightarrow> js_string \<Rightarrow> js_string list" where
  "String_split sep [] = [[]]"
| "String_split sep (c # cs) =
     (if c = sep then [] # String_split sep cs
      else (case String_split sep cs of
              [] \<Rightarrow> [[c]]
            | w # ws \<Rightarrow> (c # w) # ws))"

definition at_index :: "'a list \<Rightarrow> nat \<Rightarrow> 'a option" where
  "at_index xs i = (if i < length xs then Some (xs ! i) else None)"

text \<open>
  The reset of the file input element in the \<open>finally\<close> block touches the DOM only and
  is not part of the session.
\<close>

definition handleFileUpload :: "Gateway \<Rightarrow> ReadOutcome \<Rightarrow> File option \<Rightarrow> Session \<Rightarrow> run" where
  "handleFileUpload gw outcome files0 s =
     (case files0 of
        None \<Rightarrow> ([], [])
      | Some file \<Rightarrow>
          (let s1 = s\<lparr> isUploading := True \<rparr>
           in case outcome of
                ReadThrows \<Rightarrow>
                  ([], [s1\<lparr> isUploading := False,
                            analysis := (analysis s1)\<lparr> error :=
                               Some (js ''Failed to upload file.'') \<rparr> \<rparr>])
              | NoLoadEvent \<Rightarrow> ([], [s1])
              | Loaded result \<Rightarrow>
                  (case at_index (String_split 0x2C result) 1 of
                     None \<Rightarrow> ([], [s1])
                   | Some base64String \<Rightarrow>
                       if \<not> truthy base64String then ([], [s1])
                       else
                         (case gw_extractTextFromFile gw base64String (file_type file) of
                            Inr extractedText \<Rightarrow>
                              ([ExtractTextFromFile base64String (file_type file)],
                               [s1,
                                s1\<lparr> doc := \<lparr> doc_text = extractedText,
                                               title = file_name file \<rparr>,
                                     analysis :=
                                       \<lparr> isAnalyzing = False, suggestions = [],
                                         sources = [], claimVerification = [],
                                         summary = None, aiDetection = None,
                                         error = None \<rparr>,
                                     isUploading := False \<rparr>])
                          | Inl err \<Rightarrow>
                              ([ExtractTextFromFile base64String (file_type file)],
                               [s1,
                                s1\<lparr> analysis := (analysis s1)\<lparr> error :=
                                       Some (js ''Failed to read document text. The format might not be supported.'') \<rparr>,
                                     isUploading := False \<rparr>])))))"

text \<open>The sample session used to run the operations on concrete inputs.\<close>

definition sample_suggestion :: "string \<Rightarrow> string \<Rightarrow> string \<Rightarrow> Suggestion" where
  "sample_suggestion i a b =
     \<lparr> suggestion_id = js i, originalText = js a, suggestedText = js b,
       suggestion_explanation = js ''reason'', suggestion_type = Grammar,
       severity = Minor \<rparr>"

definition sample_session :: "string \<Rightarrow> Session" where
  "sample_session t =
     \<lparr> doc = \<lparr> doc_text = js t, title = js ''Untitled Document'' \<rparr>,
       selectedText = [],
       activeTab = SUMMARY,
       analysis = \<lparr> isAnalyzing = False,
                    suggestions = [sample_suggestion ''s0'' ''E=mc2'' ''$$E=mc2$$'',
                                   sample_suggestion ''s1'' ''teh'' ''the''],
                    sources = [\<lparr> url = Some (js ''https://a.example''),
                                source_title = js ''A'', snippet = None \<rparr>],
                    claimVerification = [],
                    summary = Some (js ''old summary''),
                    aiDetection = Some (AiDetectionResult_json
                                          \<lparr> score = 12, label = LikelyHuman,
                                            ai_explanation = js ''varied'' \<rparr>),
                    error = None \<rparr>,
       isUploading = False \<rparr>"


text \<open>
  A sample gateway, each operation settling in a given way. None of the AI-detection
  results used below has a string or an array for a score, so the conversion of those is
  never asked for.
\<close>

definition sample_gateway ::
  "js_error + Suggestion list \<Rightarrow> js_error + SourceMatch list \<Rightarrow> js_error + json
     \<Rightarrow> js_error + VerificationResult list \<Rightarrow> js_error + js_string \<Rightarrow> Gateway" where
  "sample_gateway g v a c x =
     \<lparr> gw_checkGrammarAndStyle = (\<lambda>t. g),
       gw_verifySources = (\<lambda>t. v),
       gw_generateSummary = (\<lambda>t. Inr (js ''A summary.'')),
       gw_detectAIContent = (\<lambda>t. a),
       gw_verifyTextClaims = (\<lambda>t. c),
       gw_extractTextFromFile = (\<lambda>b m. x),
       rt_ToNumber = (\<lambda>v. None) \<rparr>"

definition sample_ai :: "real \<Rightarrow> json" where
  "sample_ai n =
     AiDetectionResult_json
       \<lparr> score = n, label = MixedSignals, ai_explanation = js ''uniform'' \<rparr>"

definition sample_claim :: VerificationResult where
  "sample_claim =
     \<lparr> claim_id = js ''claim-0-1'', claim = js ''80% of users prefer simple interfaces'',
       status = Questionable, claim_explanation = js ''no source found'',
       claim_sources = [] \<rparr>"


definition sample_file :: File where
  "sample_file = \<lparr> file_name = js ''paper.pdf'', file_type = js ''application/pdf'' \<rparr>"

text \<open>
  A sample platform: the service answers every request with the given response. Its
  parser does what \<open>JSON.parse\<close> does on the bodies used below: it reads \<open>[]\<close>,
  \<open>null\<close> and \<open>[null]\<close>, and it rejects the truncated body \<open>[{originalText:\<close>.
\<close>

definition sample_env :: "GenerateContentResponse \<Rightarrow> Env" where
  "sample_env response =
     \<lparr> API_KEY = Some (js ''key''),
       generateContent = (\<lambda>request. Inr response),
       JSON_parse = (\<lambda>body. if body = js ''[]'' then Some (JArr [])
                             else if body = js ''null'' then Some JNull
                             else if body = js ''[null]'' then Some (JArr [JNull])
                             else None),
       Date_now = (\<lambda>i. 1700000000000) \<rparr>"

text \<open>
  A gateway whose AI detection is the operation of the service module itself, run on a
  platform where the service answers with the body \<open>null\<close>; the other three requests
  of a full scan are fulfilled, the grammar check with two suggestions.
\<close>

definition null_ai_gateway :: Gateway where
  "null_ai_gateway =
     \<lparr> gw_checkGrammarAndStyle =
         (\<lambda>t. Inr [sample_suggestion ''a'' ''utilize'' ''utilizes'',
                    sample_suggestion ''b'' ''teh'' ''the'']),
       gw_verifySources = (\<lambda>t. Inr []),
       gw_generateSummary = (\<lambda>t. Inr (js ''A summary.'')),
       gw_detectAIContent =
         detectAIContent (sample_env \<lparr> response_text = Some (js ''null''),
                                       groundingChunks = None \<rparr>),
       gw_verifyTextClaims = (\<lambda>t. Inr []),
       gw_extractTextFromFile = (\<lambda>b m. Inr []),
       rt_ToNumber = (\<lambda>v. None) \<rparr>"

definition sample_chunk :: "string \<Rightarrow> string \<Rightarrow> GroundingChunk" where
  "sample_chunk u t = \<lparr> web = Some \<lparr> uri = Some (js u), web_title = Some (js t) \<rparr> \<rparr>"


section \<open>Properties of applySuggestion\<close>

text \<open>
  C10. Applying a suggestion changes at most the document text and the list of pending
  suggestions: the title, the selection, the active tab, the upload flag and the analysis
  fields sources, claimVerification, summary, aiDetection, error and isAnalyzing are the
  ones of the state before.
\<close>

theorem applySuggestion_frame:
  "title (doc (applySuggestion suggestion s)) = title (doc s)
   \<and> selectedText (applySuggestion suggestion s) = selectedText s
   \<and> activeTab (applySuggestion suggestion s) = activeTab s
   \<and> isUploading (applySuggestion suggestion s) = isUploading s
   \<and> sources (analysis (applySuggestion suggestion s)) = sources (analysis s)
   \<and> claimVerification (analysis (applySuggestion suggestion s)) = claimVerification (analysis s)
   \<and> summary (analysis (applySuggestion suggestion s)) = summary (analysis s)
   \<and> aiDetection (analysis (applySuggestion suggestion s)) = aiDetection (analysis s)
   \<and> error (analysis (applySuggestion suggestion s)) = error (analysis s)
   \<and> isAnalyzing (analysis (applySuggestion suggestion s)) = isAnalyzing (analysis s)"
  by (simp add: applySuggestion_def Let_def)


text \<open>
  What \<open>String.prototype.replace\<close> does agrees with the literal replacement of the
  first occurrence whenever the replacement text has no dollar sign.
\<close>

lemma GetSubstitution_no_dollar:
  "0x24 \<notin> set r \<Longrightarrow> GetSubstitution m p f r = r"
  by (induction m p f r rule: GetSubstitution.induct) auto

lemma spec_replace_first_index:
  "spec_replace_first t a b =
     (case StringIndexOf t a of
        None \<Rightarrow> t
      | Some pos \<Rightarrow> take pos t @ b @ drop (pos + length a) t)"
  by (induction t) (auto split: option.splits simp: prefix_def)

lemma String_replace_literal:
  "0x24 \<notin> set b \<Longrightarrow> String_replace t a b = spec_replace_first t a b"
  by (simp add: String_replace_def spec_replace_first_index GetSubstitution_no_dollar
      Let_def split: option.splits)

lemma StringIndexOf_None:
  "StringIndexOf t a = None \<Longrightarrow> \<not> prefix a (drop i t)"
proof (induction t arbitrary: i)
  case Nil
  then show ?case by (auto split: if_splits)
next
  case (Cons c cs)
  then show ?case by (cases i) (auto split: if_splits)
qed

lemma String_replace_absent:
  "StringIndexOf t a = None \<Longrightarrow> String_replace t a b = t"
  by (simp add: String_replace_def)

lemma applySuggestion_suggestions:
  "suggestions (analysis (applySuggestion suggestion s)) =
     filter (\<lambda>x. suggestion_id x \<noteq> suggestion_id suggestion) (suggestions (analysis s))"
  by (simp add: applySuggestion_def Let_def)

lemma applySuggestion_without_dollar:
  "0x24 \<notin> set (suggestedText suggestion) \<Longrightarrow>
     doc_text (doc (applySuggestion suggestion s)) =
       spec_replace_first (doc_text (doc s)) (originalText suggestion) (suggestedText suggestion)"
  by (simp add: applySuggestion_def Let_def String_replace_literal)

text \<open>
  C1. Applying a suggestion replaces the first occurrence of \<open>originalText\<close> in the
  document text by \<open>suggestedText\<close>, literally. The code does so only for a
  \<open>suggestedText\<close> without dollar patterns: for the suggestion that turns \<open>E=mc2\<close>
  into \<open>$$E=mc2$$\<close> in the text \<open>Energy is E=mc2.\<close>, the document becomes
  \<open>Energy is $E=mc2$.\<close>, where the literal replacement is
  \<open>Energy is $$E=mc2$$.\<close>; the applied suggestion leaves the pending list all the same.
\<close>

theorem applySuggestion_dollar_pattern:
  "doc_text (doc (applySuggestion (sample_suggestion ''s0'' ''E=mc2'' ''$$E=mc2$$'')
                    (sample_session ''Energy is E=mc2.'')))
     = js ''Energy is $E=mc2$.''
   \<and> spec_replace_first (js ''Energy is E=mc2.'') (js ''E=mc2'') (js ''$$E=mc2$$'')
     = js ''Energy is $$E=mc2$$.''
   \<and> js ''Energy is $E=mc2$.'' \<noteq> js ''Energy is $$E=mc2$$.''
   \<and> suggestions (analysis (applySuggestion (sample_suggestion ''s0'' ''E=mc2'' ''$$E=mc2$$'')
                                 (sample_session ''Energy is E=mc2.'')))
     = [sample_suggestion ''s1'' ''teh'' ''the'']"
  by (simp add: applySuggestion_def sample_suggestion_def sample_session_def
      String_replace_def js_def Let_def)


section \<open>Properties of the full scan\<close>

lemma dropWhile_all: "(dropWhile P xs = []) = (\<forall>x\<in>set xs. P x)"
  by (induction xs) auto

lemma dropWhile_twice_empty:
  assumes a: "dropWhile P (rev (dropWhile P xs)) = []"
  shows "dropWhile P xs = []"
proof (rule ccontr)
  assume n: "dropWhile P xs \<noteq> []"
  from n have h: "\<not> P (hd (dropWhile P xs))"
    by (rule hd_dropWhile)
  from n have "hd (dropWhile P xs) \<in> set (dropWhile P xs)"
    by (rule hd_in_set)
  then have m: "hd (dropWhile P xs) \<in> set (rev (dropWhile P xs))"
    by (simp only: set_rev)
  from a have "\<forall>y\<in>set (rev (dropWhile P xs)). P y"
    by (simp only: dropWhile_all)
  with m h show False by blast
qed

text \<open>The trimmed text is empty exactly when every code unit is white space.\<close>

lemma trim_empty_iff: "(trim s = []) = (\<forall>c\<in>set s. is_white_space c)"
proof
  assume "trim s = []"
  then have "dropWhile is_white_space (rev (dropWhile is_white_space s)) = []"
    by (simp only: trim_def rev_is_Nil_conv)
  then have "dropWhile is_white_space s = []"
    by (rule dropWhile_twice_empty)
  then show "\<forall>c\<in>set s. is_white_space c"
    by (simp only: dropWhile_all)
next
  assume "\<forall>c\<in>set s. is_white_space c"
  then have "dropWhile is_white_space s = []"
    by (simp only: dropWhile_all)
  then show "trim s = []"
    unfolding trim_def by (simp only: rev.simps dropWhile.simps)
qed

lemma runAnalysis_blank:
  assumes "trim (doc_text (doc s)) = []"
  shows "runAnalysis gw s = ([], [])"
proof -
  have "\<not> truthy (trim (doc_text (doc s)))"
    by (simp only: assms truthy_def simp_thms)
  then show ?thesis
    by (simp only: runAnalysis_def if_True simp_thms)
qed

lemma sample_text_not_blank:
  "truthy (trim (doc_text (doc (sample_session ''The study utilize a qualitative approach.''))))"
  by (simp add: sample_session_def truthy_def trim_def is_white_space_def js_def)

text \<open>
  C6. For a document whose text is empty or consists of white space only, a full scan
  does nothing: no gateway call is issued and no state is produced, so \<open>isAnalyzing\<close>
  never becomes true and the session stays as it was.
\<close>

theorem runAnalysis_blank_noop:
  assumes "\<forall>c\<in>set (doc_text (doc s)). is_white_space c"
  shows "runAnalysis gw s = ([], []) \<and> final_state s (runAnalysis gw s) = s"
proof -
  have "trim (doc_text (doc s)) = []"
    using assms by (simp only: trim_empty_iff)
  then have r: "runAnalysis gw s = ([], [])"
    by (rule runAnalysis_blank)
  show ?thesis
    by (simp only: r final_state_def snd_conv last.simps if_True simp_thms)
qed

theorem runAnalysis_blank_noop_witness:
  "runAnalysis (sample_gateway (Inr []) (Inr []) (Inr (sample_ai 5)) (Inr []) (Inr []))
     (sample_session [CHR 0x20, CHR 0x0A, CHR 0x09]) = ([], [])
   \<and> final_state (sample_session [CHR 0x20, CHR 0x0A, CHR 0x09])
       (runAnalysis (sample_gateway (Inr []) (Inr []) (Inr (sample_ai 5)) (Inr []) (Inr []))
          (sample_session [CHR 0x20, CHR 0x0A, CHR 0x09]))
     = sample_session [CHR 0x20, CHR 0x0A, CHR 0x09]"
proof -
  have h: "\<forall>c\<in>set (doc_text (doc (sample_session [CHR 0x20, CHR 0x0A, CHR 0x09]))).
             is_white_space c"
    by (simp add: sample_session_def is_white_space_def js_def)
  show ?thesis
    by (rule runAnalysis_blank_noop [OF h])
qed

lemma Promise_all4_rejected:
  "isl p1 \<or> isl p2 \<or> isl p3 \<or> isl p4 \<Longrightarrow> isl (Promise_all4 p1 p2 p3 p4)"
  by (auto simp: Promise_all4_def split: sum.splits)

text \<open>
  C2. When a full scan runs and one of its four requests (grammar check, source
  verification, summary, AI detection) is rejected, the session ends with the
  suggestions, sources, summary and aiDetection it had before, with \<open>isAnalyzing\<close>
  false and with the generic failure message in \<open>error\<close>.
\<close>

theorem runAnalysis_failure:
  assumes started: "truthy (trim (doc_text (doc s)))"
    and failed: "isl (gw_checkGrammarAndStyle gw (doc_text (doc s)))
               \<or> isl (gw_verifySources gw (doc_text (doc s)))
               \<or> isl (gw_generateSummary gw (doc_text (doc s)))
               \<or> isl (gw_detectAIContent gw (doc_text (doc s)))"
  shows "suggestions (analysis (final_state s (runAnalysis gw s))) = suggestions (analysis s)
       \<and> sources (analysis (final_state s (runAnalysis gw s))) = sources (analysis s)
       \<and> summary (analysis (final_state s (runAnalysis gw s))) = summary (analysis s)
       \<and> aiDetection (analysis (final_state s (runAnalysis gw s))) = aiDetection (analysis s)
       \<and> isAnalyzing (analysis (final_state s (runAnalysis gw s))) = False
       \<and> error (analysis (final_state s (runAnalysis gw s))) =
           Some (js ''Failed to complete analysis. Please check your internet connection or API key.'')"
proof -
  obtain e where "Promise_all4 (gw_checkGrammarAndStyle gw (doc_text (doc s)))
      (gw_verifySources gw (doc_text (doc s))) (gw_generateSummary gw (doc_text (doc s)))
      (gw_detectAIContent gw (doc_text (doc s))) = Inl e"
    using Promise_all4_rejected [OF failed] by (auto simp: isl_def)
  then show ?thesis using started
    by (simp add: runAnalysis_def final_state_def Let_def)
qed

theorem runAnalysis_failure_witness:
  "suggestions (analysis (final_state (sample_session ''The study utilize a qualitative approach.'')
      (runAnalysis (sample_gateway (Inr []) (Inl ServiceFailure) (Inr (sample_ai 5)) (Inr []) (Inr []))
         (sample_session ''The study utilize a qualitative approach.''))))
     = [sample_suggestion ''s0'' ''E=mc2'' ''$$E=mc2$$'', sample_suggestion ''s1'' ''teh'' ''the'']
   \<and> summary (analysis (final_state (sample_session ''The study utilize a qualitative approach.'')
      (runAnalysis (sample_gateway (Inr []) (Inl ServiceFailure) (Inr (sample_ai 5)) (Inr []) (Inr []))
         (sample_session ''The study utilize a qualitative approach.''))))
     = Some (js ''old summary'')
   \<and> error (analysis (final_state (sample_session ''The study utilize a qualitative approach.'')
      (runAnalysis (sample_gateway (Inr []) (Inl ServiceFailure) (Inr (sample_ai 5)) (Inr []) (Inr []))
         (sample_session ''The study utilize a qualitative approach.''))))
     = Some (js ''Failed to complete analysis. Please check your internet connection or API key.'')"
proof -
  have f: "isl (gw_checkGrammarAndStyle
                 (sample_gateway (Inr []) (Inl ServiceFailure) (Inr (sample_ai 5)) (Inr []) (Inr []))
                 (doc_text (doc (sample_session ''The study utilize a qualitative approach.''))))
         \<or> isl (gw_verifySources
                 (sample_gateway (Inr []) (Inl ServiceFailure) (Inr (sample_ai 5)) (Inr []) (Inr []))
                 (doc_text (doc (sample_session ''The study utilize a qualitative approach.''))))
         \<or> isl (gw_generateSummary
                 (sample_gateway (Inr []) (Inl ServiceFailure) (Inr (sample_ai 5)) (Inr []) (Inr []))
                 (doc_text (doc (sample_session ''The study utilize a qualitative approach.''))))
         \<or> isl (gw_detectAIContent
                 (sample_gateway (Inr []) (Inl ServiceFailure) (Inr (sample_ai 5)) (Inr []) (Inr []))
                 (doc_text (doc (sample_session ''The study utilize a qualitative approach.''))))"
    by (simp add: sample_gateway_def)
  show ?thesis
    using runAnalysis_failure [OF sample_text_not_blank f]
    by (simp add: sample_session_def)
qed

text \<open>
  The read of the score throws on \<open>null\<close> and on nothing else.
\<close>

lemma get_score_throws: "(\<exists>err. get_score v = Inl err) = (v = JNull)"
  by (cases v) (simp_all add: get_score_def)

lemma get_score_declared_type:
  "get_score (AiDetectionResult_json r) = Inr (Some (JNum (score r)))"
  by (simp add: get_score_def AiDetectionResult_json_def js_def)

text \<open>
  After a full scan whose four requests are fulfilled with an AI-detection result that
  is not \<open>null\<close>, no error is set and the active tab is the AI-check tab when the score
  of the result compares greater than 80; otherwise the grammar tab when there is a
  suggestion; otherwise the sources tab when there is a source; otherwise the tab that
  was active before.
\<close>

lemma runAnalysis_routing:
  assumes "truthy (trim (doc_text (doc s)))"
    and "gw_checkGrammarAndStyle gw (doc_text (doc s)) = Inr suggestions'"
    and "gw_verifySources gw (doc_text (doc s)) = Inr sources'"
    and "gw_generateSummary gw (doc_text (doc s)) = Inr summary'"
    and "gw_detectAIContent gw (doc_text (doc s)) = Inr aiDetection'"
    and "get_score aiDetection' = Inr score'"
  shows "activeTab (final_state s (runAnalysis gw s)) =
          (if greater_than (ToNumber (rt_ToNumber gw) score') 80 then AI_CHECK
           else if suggestions' \<noteq> [] then GRAMMAR
           else if sources' \<noteq> [] then SOURCES
           else activeTab s)
       \<and> error (analysis (final_state s (runAnalysis gw s))) = None"
  using assms by (simp add: runAnalysis_def final_state_def Let_def Promise_all4_def)

text \<open>For a result of the declared type the comparison is the one of its score.\<close>

lemma runAnalysis_routing_declared_type:
  assumes "truthy (trim (doc_text (doc s)))"
    and "gw_checkGrammarAndStyle gw (doc_text (doc s)) = Inr suggestions'"
    and "gw_verifySources gw (doc_text (doc s)) = Inr sources'"
    and "gw_generateSummary gw (doc_text (doc s)) = Inr summary'"
    and "gw_detectAIContent gw (doc_text (doc s)) = Inr (AiDetectionResult_json r)"
  shows "activeTab (final_state s (runAnalysis gw s)) =
          (if score r > 80 then AI_CHECK
           else if suggestions' \<noteq> [] then GRAMMAR
           else if sources' \<noteq> [] then SOURCES
           else activeTab s)"
  using runAnalysis_routing [OF assms get_score_declared_type]
  by (simp add: greater_than_def)

lemma runAnalysis_routing_example:
  "activeTab (final_state (sample_session ''The study utilize a qualitative approach.'')
      (runAnalysis
         (sample_gateway
            (Inr [sample_suggestion ''a'' ''utilize'' ''utilizes'',
                  sample_suggestion ''b'' ''teh'' ''the''])
            (Inr []) (Inr (sample_ai 85)) (Inr []) (Inr []))
         (sample_session ''The study utilize a qualitative approach.'')))
     = AI_CHECK"
proof -
  have g: "gw_checkGrammarAndStyle
             (sample_gateway
                (Inr [sample_suggestion ''a'' ''utilize'' ''utilizes'',
                      sample_suggestion ''b'' ''teh'' ''the''])
                (Inr []) (Inr (sample_ai 85)) (Inr []) (Inr []))
             (doc_text (doc (sample_session ''The study utilize a qualitative approach.'')))
           = Inr [sample_suggestion ''a'' ''utilize'' ''utilizes'',
                  sample_suggestion ''b'' ''teh'' ''the'']"
    by (simp add: sample_gateway_def)
  have v: "gw_verifySources
             (sample_gateway
                (Inr [sample_suggestion ''a'' ''utilize'' ''utilizes'',
                      sample_suggestion ''b'' ''teh'' ''the''])
                (Inr []) (Inr (sample_ai 85)) (Inr []) (Inr []))
             (doc_text (doc (sample_session ''The study utilize a qualitative approach.'')))
           = Inr []"
    by (simp add: sample_gateway_def)
  have m: "gw_generateSummary
             (sample_gateway
                (Inr [sample_suggestion ''a'' ''utilize'' ''utilizes'',
                      sample_suggestion ''b'' ''teh'' ''the''])
                (Inr []) (Inr (sample_ai 85)) (Inr []) (Inr []))
             (doc_text (doc (sample_session ''The study utilize a qualitative approach.'')))
           = Inr (js ''A summary.'')"
    by (simp add: sample_gateway_def)
  have d: "gw_detectAIContent
             (sample_gateway
                (Inr [sample_suggestion ''a'' ''utilize'' ''utilizes'',
                      sample_suggestion ''b'' ''teh'' ''the''])
                (Inr []) (Inr (sample_ai 85)) (Inr []) (Inr []))
             (doc_text (doc (sample_session ''The study utilize a qualitative approach.'')))
           = Inr (AiDetectionResult_json
                    \<lparr> score = 85, label = MixedSignals, ai_explanation = js ''uniform'' \<rparr>)"
    by (simp add: sample_gateway_def sample_ai_def)
  show ?thesis
    using runAnalysis_routing_declared_type [OF sample_text_not_blank g v m d]
    by simp
qed

lemma null_ai_gateway_detectAIContent:
  "gw_detectAIContent null_ai_gateway t = Inr JNull"
  by (simp add: null_ai_gateway_def detectAIContent_def getAiClient_def sample_env_def
      truthy_opt_def truthy_def js_def Let_def)

text \<open>
  C3. After every full scan whose four requests are fulfilled, the active tab is the
  AI-check tab when the AI-detection score is greater than 80; otherwise the grammar tab
  when there is a suggestion; otherwise the sources tab when there is a source; otherwise
  the tab that was active before. The code does so unless the AI-detection result is
  \<open>null\<close>. When the service answers the AI-detection request with the body \<open>null\<close>,
  \<open>detectAIContent\<close> is fulfilled with \<open>null\<close>; with the other three requests fulfilled
  and two suggestions found, the full scan stores the results, throws on reading the
  score and ends in its \<open>catch\<close> block: the two suggestions are in the session, the
  generic failure message is set, and the active tab is the one from before (the summary
  tab) where the claim puts the grammar tab.
\<close>

theorem runAnalysis_null_aiDetection:
  "detectAIContent
     (sample_env \<lparr> response_text = Some (js ''null''), groundingChunks = None \<rparr>)
     (js ''The study utilize a qualitative approach.'') = Inr JNull
   \<and> fst (runAnalysis null_ai_gateway
             (sample_session ''The study utilize a qualitative approach.''))
     = [CheckGrammarAndStyle (js ''The study utilize a qualitative approach.''),
        VerifySources (js ''The study utilize a qualitative approach.''),
        GenerateSummary (js ''The study utilize a qualitative approach.''),
        DetectAIContent (js ''The study utilize a qualitative approach.'')]
   \<and> suggestions (analysis (final_state
         (sample_session ''The study utilize a qualitative approach.'')
         (runAnalysis null_ai_gateway
            (sample_session ''The study utilize a qualitative approach.''))))
     = [sample_suggestion ''a'' ''utilize'' ''utilizes'', sample_suggestion ''b'' ''teh'' ''the'']
   \<and> aiDetection (analysis (final_state
         (sample_session ''The study utilize a qualitative approach.'')
         (runAnalysis null_ai_gateway
            (sample_session ''The study utilize a qualitative approach.''))))
     = None
   \<and> error (analysis (final_state
         (sample_session ''The study utilize a qualitative approach.'')
         (runAnalysis null_ai_gateway
            (sample_session ''The study utilize a qualitative approach.''))))
     = Some (js ''Failed to complete analysis. Please check your internet connection or API key.'')
   \<and> activeTab (final_state
         (sample_session ''The study utilize a qualitative approach.'')
         (runAnalysis null_ai_gateway
            (sample_session ''The study utilize a qualitative approach.'')))
     = SUMMARY
   \<and> SUMMARY \<noteq> GRAMMAR"
proof -
  have d: "detectAIContent
     (sample_env \<lparr> response_text = Some (js ''null''), groundingChunks = None \<rparr>)
     (js ''The study utilize a qualitative approach.'') = Inr JNull"
    by (simp add: detectAIContent_def getAiClient_def sample_env_def
        truthy_opt_def truthy_def js_def Let_def)
  have r: "runAnalysis null_ai_gateway
             (sample_session ''The study utilize a qualitative approach.'')
           = ([CheckGrammarAndStyle (js ''The study utilize a qualitative approach.''),
               VerifySources (js ''The study utilize a qualitative approach.''),
               GenerateSummary (js ''The study utilize a qualitative approach.''),
               DetectAIContent (js ''The study utilize a qualitative approach.'')],
              [(sample_session ''The study utilize a qualitative approach.'')
                 \<lparr> analysis := (analysis (sample_session ''The study utilize a qualitative approach.''))
                      \<lparr> isAnalyzing := True, error := None, claimVerification := [] \<rparr> \<rparr>,
               (sample_session ''The study utilize a qualitative approach.'')
                 \<lparr> analysis :=
                      \<lparr> isAnalyzing = False,
                        suggestions = [sample_suggestion ''a'' ''utilize'' ''utilizes'',
                                       sample_suggestion ''b'' ''teh'' ''the''],
                        sources = [], claimVerification = [],
                        summary = Some (js ''A summary.''), aiDetection = None,
                        error = Some (js ''Failed to complete analysis. Please check your internet connection or API key.'') \<rparr> \<rparr>])"
    using sample_text_not_blank
    by (simp add: runAnalysis_def Let_def Promise_all4_def null_ai_gateway_detectAIContent
        get_score_def nullable_def)
       (simp add: null_ai_gateway_def sample_session_def get_score_def nullable_def Let_def)
  show ?thesis
    unfolding r final_state_def by (simp add: d sample_session_def)
qed


section \<open>Properties of the selection-scoped verification\<close>

text \<open>
  C7. With an empty selection \<open>verifySelection\<close> does nothing: no gateway call, no
  state. With a non-empty selection it issues the one claim-verification call for the
  selection; while the call is pending the session is the one before with
  \<open>isAnalyzing\<close> true, \<open>error\<close> cleared and the Sources tab active. When the call is
  fulfilled the session is the one before with the Sources tab active, \<open>isAnalyzing\<close>
  false, \<open>error\<close> cleared and \<open>claimVerification\<close> replaced by the result; when it is
  rejected, the one before with the Sources tab active, \<open>isAnalyzing\<close> false and the
  selection-specific message in \<open>error\<close>. Every field not named is unchanged.
\<close>

theorem verifySelection_effect:
  "(selectedText s = [] \<longrightarrow> verifySelection gw s = ([], []))
   \<and> (selectedText s \<noteq> [] \<and> gw_verifyTextClaims gw (selectedText s) = Inr claims \<longrightarrow>
        verifySelection gw s =
          ([VerifyTextClaims (selectedText s)],
           [s\<lparr> activeTab := SOURCES,
                analysis := (analysis s)\<lparr> isAnalyzing := True, error := None \<rparr> \<rparr>,
            s\<lparr> activeTab := SOURCES,
                analysis := (analysis s)\<lparr> isAnalyzing := False, error := None,
                                           claimVerification := claims \<rparr> \<rparr>]))
   \<and> (selectedText s \<noteq> [] \<and> gw_verifyTextClaims gw (selectedText s) = Inl err \<longrightarrow>
        verifySelection gw s =
          ([VerifyTextClaims (selectedText s)],
           [s\<lparr> activeTab := SOURCES,
                analysis := (analysis s)\<lparr> isAnalyzing := True, error := None \<rparr> \<rparr>,
            s\<lparr> activeTab := SOURCES,
                analysis := (analysis s)\<lparr> isAnalyzing := False,
                   error := Some (js ''Failed to verify selected text.'') \<rparr> \<rparr>]))"
  by (simp add: verifySelection_def truthy_def Let_def)

theorem verifySelection_effect_witness:
  "verifySelection (sample_gateway (Inr []) (Inr []) (Inr (sample_ai 5)) (Inr [sample_claim]) (Inr []))
     (sample_session ''The results shows that 80% of users prefer simple interfaces.'') = ([], [])
   \<and> final_state
        ((sample_session ''The results shows.'')\<lparr> selectedText := js ''80% of users'' \<rparr>)
        (verifySelection
           (sample_gateway (Inr []) (Inr []) (Inr (sample_ai 5)) (Inr [sample_claim]) (Inr []))
           ((sample_session ''The results shows.'')\<lparr> selectedText := js ''80% of users'' \<rparr>))
      = (sample_session ''The results shows.'')
          \<lparr> selectedText := js ''80% of users'', activeTab := SOURCES,
            analysis := (analysis (sample_session ''The results shows.''))
                          \<lparr> claimVerification := [sample_claim] \<rparr> \<rparr>
   \<and> final_state
        ((sample_session ''The results shows.'')\<lparr> selectedText := js ''80% of users'' \<rparr>)
        (verifySelection
           (sample_gateway (Inr []) (Inr []) (Inr (sample_ai 5)) (Inl ServiceFailure) (Inr []))
           ((sample_session ''The results shows.'')\<lparr> selectedText := js ''80% of users'' \<rparr>))
      = (sample_session ''The results shows.'')
          \<lparr> selectedText := js ''80% of users'', activeTab := SOURCES,
            analysis := (analysis (sample_session ''The results shows.''))
                          \<lparr> error := Some (js ''Failed to verify selected text.'') \<rparr> \<rparr>"
proof -
  have e: "selectedText (sample_session ''The results shows that 80% of users prefer simple interfaces.'') = []"
    by (simp add: sample_session_def)
  have n: "selectedText ((sample_session ''The results shows.'')\<lparr> selectedText := js ''80% of users'' \<rparr>) \<noteq> []"
    by (simp add: js_def)
  have ok: "gw_verifyTextClaims
              (sample_gateway (Inr []) (Inr []) (Inr (sample_ai 5)) (Inr [sample_claim]) (Inr []))
              (selectedText ((sample_session ''The results shows.'')\<lparr> selectedText := js ''80% of users'' \<rparr>))
            = Inr [sample_claim]"
    by (simp add: sample_gateway_def)
  have ko: "gw_verifyTextClaims
              (sample_gateway (Inr []) (Inr []) (Inr (sample_ai 5)) (Inl ServiceFailure) (Inr []))
              (selectedText ((sample_session ''The results shows.'')\<lparr> selectedText := js ''80% of users'' \<rparr>))
            = Inl ServiceFailure"
    by (simp add: sample_gateway_def)
  have 1: "verifySelection (sample_gateway (Inr []) (Inr []) (Inr (sample_ai 5)) (Inr [sample_claim]) (Inr []))
     (sample_session ''The results shows that 80% of users prefer simple interfaces.'') = ([], [])"
    using verifySelection_effect [of "sample_session ''The results shows that 80% of users prefer simple interfaces.''"] e
    by blast
  have 2: "verifySelection
           (sample_gateway (Inr []) (Inr []) (Inr (sample_ai 5)) (Inr [sample_claim]) (Inr []))
           ((sample_session ''The results shows.'')\<lparr> selectedText := js ''80% of users'' \<rparr>)
         = ([VerifyTextClaims (js ''80% of users'')],
           [(sample_session ''The results shows.'')\<lparr> selectedText := js ''80% of users'', activeTab := SOURCES,
                analysis := (analysis (sample_session ''The results shows.''))\<lparr> isAnalyzing := True, error := None \<rparr> \<rparr>,
            (sample_session ''The results shows.'')\<lparr> selectedText := js ''80% of users'', activeTab := SOURCES,
                analysis := (analysis (sample_session ''The results shows.''))\<lparr> isAnalyzing := False, error := None,
                                           claimVerification := [sample_claim] \<rparr> \<rparr>])"
    using verifySelection_effect [of "(sample_session ''The results shows.'')\<lparr> selectedText := js ''80% of users'' \<rparr>" _ "[sample_claim]"] n ok
    by simp
  have 3: "verifySelection
           (sample_gateway (Inr []) (Inr []) (Inr (sample_ai 5)) (Inl ServiceFailure) (Inr []))
           ((sample_session ''The results shows.'')\<lparr> selectedText := js ''80% of users'' \<rparr>)
         = ([VerifyTextClaims (js ''80% of users'')],
           [(sample_session ''The results shows.'')\<lparr> selectedText := js ''80% of users'', activeTab := SOURCES,
                analysis := (analysis (sample_session ''The results shows.''))\<lparr> isAnalyzing := True, error := None \<rparr> \<rparr>,
            (sample_session ''The results shows.'')\<lparr> selectedText := js ''80% of users'', activeTab := SOURCES,
                analysis := (analysis (sample_session ''The results shows.''))\<lparr> isAnalyzing := False,
                     error := Some (js ''Failed to verify selected text.'') \<rparr> \<rparr>])"
    using verifySelection_effect [of "(sample_session ''The results shows.'')\<lparr> selectedText := js ''80% of users'' \<rparr>" _ _ "ServiceFailure"] n ko
    by simp
  show ?thesis
    unfolding final_state_def 1 2 3 by (simp add: sample_session_def)
qed


section \<open>Properties of the file upload\<close>

lemma sample_data_url:
  "at_index (String_split 0x2C (js ''data:application/pdf;base64,JVBERi0='')) 1
     = Some (js ''JVBERi0='')
   \<and> truthy (js ''JVBERi0='')"
  by (simp add: at_index_def truthy_def js_def)

text \<open>
  C8. When a file is chosen, its data URL carries a non-empty payload after the first
  comma and the transcription is fulfilled, the session ends with the document replaced
  by the transcribed text and the file name, with every field of the analysis aggregate
  at its initial value (empty lists, null summary, aiDetection and error, \<open>isAnalyzing\<close>
  false) and with the upload flag down; selection and active tab stay.
\<close>

theorem handleFileUpload_success:
  assumes "at_index (String_split 0x2C result) 1 = Some base64String"
    and "truthy base64String"
    and "gw_extractTextFromFile gw base64String (file_type file) = Inr extractedText"
  shows "final_state s (handleFileUpload gw (Loaded result) (Some file) s) =
           s\<lparr> doc := \<lparr> doc_text = extractedText, title = file_name file \<rparr>,
               analysis := \<lparr> isAnalyzing = False, suggestions = [], sources = [],
                             claimVerification = [], summary = None,
                             aiDetection = None, error = None \<rparr>,
               isUploading := False \<rparr>"
  using assms by (simp add: handleFileUpload_def final_state_def Let_def)

theorem handleFileUpload_success_witness:
  "final_state (sample_session ''Energy is E=mc2.'')
     (handleFileUpload
        (sample_gateway (Inr []) (Inr []) (Inr (sample_ai 5)) (Inr []) (Inr (js ''Transcribed text.'')))
        (Loaded (js ''data:application/pdf;base64,JVBERi0='')) (Some sample_file)
        (sample_session ''Energy is E=mc2.''))
   = \<lparr> doc = \<lparr> doc_text = js ''Transcribed text.'', title = js ''paper.pdf'' \<rparr>,
       selectedText = [],
       activeTab = SUMMARY,
       analysis = \<lparr> isAnalyzing = False, suggestions = [], sources = [],
                    claimVerification = [], summary = None, aiDetection = None,
                    error = None \<rparr>,
       isUploading = False \<rparr>"
proof -
  have x: "gw_extractTextFromFile
             (sample_gateway (Inr []) (Inr []) (Inr (sample_ai 5)) (Inr []) (Inr (js ''Transcribed text.'')))
             (js ''JVBERi0='') (file_type sample_file)
           = Inr (js ''Transcribed text.'')"
    by (simp add: sample_gateway_def)
  show ?thesis
    using handleFileUpload_success
      [OF conjunct1 [OF sample_data_url] conjunct2 [OF sample_data_url] x,
       of "sample_session ''Energy is E=mc2.''"]
    by (simp add: sample_session_def sample_file_def)
qed

text \<open>
  C9. When the transcription of the chosen file is rejected, the session keeps its
  document (text and title) and its suggestions, sources, claimVerification, summary,
  aiDetection and \<open>isAnalyzing\<close>; the failure is reported in \<open>error\<close> with the message
  about the document, which is neither the message of a failed full scan nor the one of
  a failed selection verification.
\<close>

theorem handleFileUpload_transcription_failure:
  assumes "at_index (String_split 0x2C result) 1 = Some base64String"
    and "truthy base64String"
    and "gw_extractTextFromFile gw base64String (file_type file) = Inl err"
  shows "doc (final_state s (handleFileUpload gw (Loaded result) (Some file) s)) = doc s
       \<and> suggestions (analysis (final_state s (handleFileUpload gw (Loaded result) (Some file) s)))
           = suggestions (analysis s)
       \<and> sources (analysis (final_state s (handleFileUpload gw (Loaded result) (Some file) s)))
           = sources (analysis s)
       \<and> claimVerification (analysis (final_state s (handleFileUpload gw (Loaded result) (Some file) s)))
           = claimVerification (analysis s)
       \<and> summary (analysis (final_state s (handleFileUpload gw (Loaded result) (Some file) s)))
           = summary (analysis s)
       \<and> aiDetection (analysis (final_state s (handleFileUpload gw (Loaded result) (Some file) s)))
           = aiDetection (analysis s)
       \<and> isAnalyzing (analysis (final_state s (handleFileUpload gw (Loaded result) (Some file) s)))
           = isAnalyzing (analysis s)
       \<and> error (analysis (final_state s (handleFileUpload gw (Loaded result) (Some file) s)))
           = Some (js ''Failed to read document text. The format might not be supported.'')
       \<and> js ''Failed to read document text. The format might not be supported.''
           \<noteq> js ''Failed to complete analysis. Please check your internet connection or API key.''
       \<and> js ''Failed to read document text. The format might not be supported.''
           \<noteq> js ''Failed to verify selected text.''"
  using assms by (simp add: handleFileUpload_def final_state_def Let_def js_def)

theorem handleFileUpload_transcription_failure_witness:
  "doc (final_state (sample_session ''Energy is E=mc2.'')
     (handleFileUpload
        (sample_gateway (Inr []) (Inr []) (Inr (sample_ai 5)) (Inr []) (Inl ServiceFailure))
        (Loaded (js ''data:application/pdf;base64,JVBERi0='')) (Some sample_file)
        (sample_session ''Energy is E=mc2.'')))
     = \<lparr> doc_text = js ''Energy is E=mc2.'', title = js ''Untitled Document'' \<rparr>
   \<and> summary (analysis (final_state (sample_session ''Energy is E=mc2.'')
     (handleFileUpload
        (sample_gateway (Inr []) (Inr []) (Inr (sample_ai 5)) (Inr []) (Inl ServiceFailure))
        (Loaded (js ''data:application/pdf;base64,JVBERi0='')) (Some sample_file)
        (sample_session ''Energy is E=mc2.''))))
     = Some (js ''old summary'')
   \<and> error (analysis (final_state (sample_session ''Energy is E=mc2.'')
     (handleFileUpload
        (sample_gateway (Inr []) (Inr []) (Inr (sample_ai 5)) (Inr []) (Inl ServiceFailure))
        (Loaded (js ''data:application/pdf;base64,JVBERi0='')) (Some sample_file)
        (sample_session ''Energy is E=mc2.''))))
     = Some (js ''Failed to read document text. The format might not be supported.'')"
proof -
  have x: "gw_extractTextFromFile
             (sample_gateway (Inr []) (Inr []) (Inr (sample_ai 5)) (Inr []) (Inl ServiceFailure))
             (js ''JVBERi0='') (file_type sample_file)
           = Inl ServiceFailure"
    by (simp add: sample_gateway_def)
  show ?thesis
    using handleFileUpload_transcription_failure
      [OF conjunct1 [OF sample_data_url] conjunct2 [OF sample_data_url] x,
       of "sample_session ''Energy is E=mc2.''"]
    by (simp add: sample_session_def)
qed


section \<open>Properties of the model gateway\<close>

subsection \<open>Deduplication of sources\<close>

lemma findIndex_ge: "- 1 \<le> findIndex p xs"
  by (induction xs) (auto simp: Let_def)

lemma findIndex_Cons_Suc:
  "(findIndex p (x # xs) = 1 + int i) = (\<not> p x \<and> findIndex p xs = int i)"
  using findIndex_ge [of p xs] by (auto simp: Let_def)

lemma uniqueSources_Nil: "uniqueSources [] = []"
  by (simp add: uniqueSources_def)

lemma uniqueSources_Cons:
  "uniqueSources (x # xs) = x # filter (\<lambda>y. url y \<noteq> url x) (uniqueSources xs)"
proof -
  have e: "enumerate 0 (x # xs) = (0, x) # map (apfst Suc) (enumerate 0 xs)"
    by (simp add: enumerate_Suc_eq)
  have f: "filter (\<lambda>(i, v). findIndex (\<lambda>t. url t = url v) (x # xs) = int i)
             (map (apfst Suc) (enumerate 0 xs))
           = map (apfst Suc)
               (filter (\<lambda>(i, v). url v \<noteq> url x)
                  (filter (\<lambda>(i, v). findIndex (\<lambda>t. url t = url v) xs = int i)
                     (enumerate 0 xs)))"
    unfolding filter_map filter_filter
    by (rule arg_cong [where f = "map (apfst Suc)"], rule filter_cong)
       (auto simp: findIndex_Cons_Suc simp del: findIndex.simps)
  have g: "map snd (filter (\<lambda>(i, v). url v \<noteq> url x) ys)
             = filter (\<lambda>y. url y \<noteq> url x) (map snd ys)"
    for ys :: "(nat \<times> SourceMatch) list"
    by (induction ys) auto
  have "uniqueSources (x # xs) =
          x # map snd (filter (\<lambda>(i, v). findIndex (\<lambda>t. url t = url v) (x # xs) = int i)
                         (map (apfst Suc) (enumerate 0 xs)))"
    unfolding uniqueSources_def e by simp
  also have "\<dots> = x # map snd (map (apfst Suc)
               (filter (\<lambda>(i, v). url v \<noteq> url x)
                  (filter (\<lambda>(i, v). findIndex (\<lambda>t. url t = url v) xs = int i)
                     (enumerate 0 xs))))"
    by (simp only: f)
  also have "\<dots> = x # map snd
               (filter (\<lambda>(i, v). url v \<noteq> url x)
                  (filter (\<lambda>(i, v). findIndex (\<lambda>t. url t = url v) xs = int i)
                     (enumerate 0 xs)))"
    by (simp only: map_map comp_def snd_apfst)
  also have "\<dots> = x # filter (\<lambda>y. url y \<noteq> url x) (uniqueSources xs)"
    by (simp only: g uniqueSources_def)
  finally show ?thesis .
qed

text \<open>The filter of the code computes the first-seen deduplication.\<close>

lemma uniqueSources_dedupe: "uniqueSources a = dedupe_by_url a"
  by (induction a) (simp_all only: uniqueSources_Nil uniqueSources_Cons dedupe_by_url.simps)

lemma dedupe_urls: "set (map url (dedupe_by_url a)) = set (map url a)"
proof (induction a)
  case Nil
  then show ?case by simp
next
  case (Cons x xs)
  have "url ` set (filter (\<lambda>y. url y \<noteq> url x) (dedupe_by_url xs))
          = url ` set (dedupe_by_url xs) - {url x}"
    by auto
  also have "\<dots> = url ` set xs - {url x}"
    using Cons.IH by simp
  finally show ?case by auto
qed

lemma dedupe_distinct: "distinct (map url (dedupe_by_url a))"
proof (induction a)
  case Nil
  then show ?case by simp
next
  case (Cons x xs)
  have "distinct (map url (filter (\<lambda>y. url y \<noteq> url x) (dedupe_by_url xs)))"
    using Cons.IH by (rule distinct_map_filter)
  then show ?case by auto
qed

lemma dedupe_subseq: "subseq (dedupe_by_url a) a"
proof (induction a)
  case Nil
  then show ?case by simp
next
  case (Cons x xs)
  have "subseq (filter (\<lambda>y. url y \<noteq> url x) (dedupe_by_url xs)) (dedupe_by_url xs)"
    by simp
  then have "subseq (filter (\<lambda>y. url y \<noteq> url x) (dedupe_by_url xs)) xs"
    using Cons.IH by (rule subseq_order.trans)
  then show ?case by simp
qed

lemma dedupe_first:
  "r \<in> set (dedupe_by_url a) \<Longrightarrow> find (\<lambda>t. url t = url r) a = Some r"
  by (induction a) auto

text \<open>
  On a list, \<open>remdups\<close> keeps the last occurrence of every element; taken on the
  reversed list and reversed back, it keeps the first occurrence of every element, in
  the order of the list.
\<close>

lemma remdups_snoc:
  "remdups (ys @ [x]) = filter (\<lambda>y. y \<noteq> x) (remdups ys) @ [x]"
  by (induction ys) auto

lemma first_seen_Cons:
  "rev (remdups (rev (x # xs))) = x # filter (\<lambda>y. y \<noteq> x) (rev (remdups (rev xs)))"
  by (simp add: remdups_snoc rev_filter)

lemma dedupe_urls_first_seen:
  "map url (dedupe_by_url a) = rev (remdups (rev (map url a)))"
proof (induction a)
  case Nil
  then show ?case by simp
next
  case (Cons x xs)
  have "map url (dedupe_by_url (x # xs))
          = url x # filter (\<lambda>u. u \<noteq> url x) (map url (dedupe_by_url xs))"
    by (simp add: filter_map comp_def)
  also have "\<dots> = url x # filter (\<lambda>u. u \<noteq> url x) (rev (remdups (rev (map url xs))))"
    by (simp only: Cons.IH)
  also have "\<dots> = rev (remdups (rev (map url (x # xs))))"
    by (simp only: list.map first_seen_Cons)
  finally show ?case .
qed

text \<open>
  The pushed sources are made of the \<open>web\<close> parts of the chunks, in order: the \<open>url\<close>
  is the \<open>uri\<close>, the title is the \<open>title\<close> or, when that is undefined or empty,
  \<open>External Source\<close>, and there is no snippet.
\<close>

lemma push_sources_map:
  "push_sources chunks =
     map (\<lambda>w. \<lparr> url = uri w,
                 source_title =
                   (case web_title w of
                      None \<Rightarrow> js ''External Source''
                    | Some t \<Rightarrow> if t = [] then js ''External Source'' else t),
                 snippet = None \<rparr>)
       (List.map_filter web chunks)"
  by (induction chunks) (auto simp: List.map_filter_simps truthy_def split: option.splits)

lemma push_sources_urls:
  "map url (push_sources chunks) = map uri (List.map_filter web chunks)"
  by (simp add: push_sources_map comp_def)

lemma find_map_Some:
  "find P (map f xs) = Some r \<Longrightarrow> \<exists>w. find (\<lambda>w. P (f w)) xs = Some w \<and> r = f w"
  by (induction xs) (auto split: if_splits)

lemma dedupe_entry:
  assumes "r \<in> set (dedupe_by_url (push_sources chunks))"
  shows "\<exists>w. find (\<lambda>w. uri w = url r) (List.map_filter web chunks) = Some w
           \<and> source_title r =
               (case web_title w of
                  None \<Rightarrow> js ''External Source''
                | Some t \<Rightarrow> if t = [] then js ''External Source'' else t)
           \<and> snippet r = None"
proof -
  have "find (\<lambda>t. url t = url r) (push_sources chunks) = Some r"
    using assms by (rule dedupe_first)
  then obtain w where
    w: "find (\<lambda>w. url (\<lparr> url = uri w,
                 source_title =
                   (case web_title w of
                      None \<Rightarrow> js ''External Source''
                    | Some t \<Rightarrow> if t = [] then js ''External Source'' else t),
                 snippet = None \<rparr>) = url r) (List.map_filter web chunks) = Some w"
    and r: "r = \<lparr> url = uri w,
                 source_title =
                   (case web_title w of
                      None \<Rightarrow> js ''External Source''
                    | Some t \<Rightarrow> if t = [] then js ''External Source'' else t),
                 snippet = None \<rparr>"
    unfolding push_sources_map by (blast dest: find_map_Some)
  from w have "find (\<lambda>w. uri w = url r) (List.map_filter web chunks) = Some w"
    by simp
  then show ?thesis
    using r by auto
qed

text \<open>Two sources with the same \<open>url\<close> and any titles leave the first one.\<close>

lemma uniqueSources_same_url_twice:
  "url a = url b \<Longrightarrow> uniqueSources [a, b] = [a]"
  by (simp add: uniqueSources_dedupe)

text \<open>
  C4. For the grounding chunks of a \<open>verifySources\<close> response, take the \<open>web\<close> parts
  of the chunks in order (a chunk without one gives no source). The \<open>url\<close>s of the
  returned list are the \<open>uri\<close>s of these parts with every \<open>uri\<close> kept at its first
  occurrence only, in the order of the first occurrences: so they are pairwise distinct
  and every \<open>uri\<close> has its one entry. Each entry has the title of the first part with
  its \<open>uri\<close> (\<open>External Source\<close> when that part has no title or an empty one) and no
  snippet; so a \<open>url\<close> that occurs more than once keeps the title of its first
  occurrence.
\<close>

theorem verifySources_deduplicated:
  assumes "truthy_opt (API_KEY env)"
    and "generateContent env (SourcesRequest (take 1000 text0)) = Inr response"
    and "groundingChunks response = Some chunks"
  shows "\<exists>result. verifySources env text0 = Inr result
           \<and> map url result = rev (remdups (rev (map uri (List.map_filter web chunks))))
           \<and> distinct (map url result)
           \<and> set (map url result) = set (map uri (List.map_filter web chunks))
           \<and> (\<forall>r\<in>set result.
                 \<exists>w. find (\<lambda>w. uri w = url r) (List.map_filter web chunks) = Some w
                   \<and> source_title r =
                       (case web_title w of
                          None \<Rightarrow> js ''External Source''
                        | Some t \<Rightarrow> if t = [] then js ''External Source'' else t)
                   \<and> snippet r = None)"
proof -
  have v: "verifySources env text0 = Inr (dedupe_by_url (push_sources chunks))"
    using assms by (simp add: verifySources_def getAiClient_def uniqueSources_dedupe)
  have o: "map url (dedupe_by_url (push_sources chunks))
             = rev (remdups (rev (map uri (List.map_filter web chunks))))"
    by (simp only: dedupe_urls_first_seen push_sources_urls)
  have s: "set (map url (dedupe_by_url (push_sources chunks)))
             = set (map uri (List.map_filter web chunks))"
    by (simp only: dedupe_urls push_sources_urls)
  show ?thesis
    using v o s dedupe_distinct [of "push_sources chunks"] dedupe_entry [of _ chunks]
    by blast
qed

theorem verifySources_deduplicated_witness:
  "verifySources
     (sample_env \<lparr> response_text = Some (js ''Two sources.''),
                   groundingChunks = Some [sample_chunk ''https://a.example'' ''First title'',
                                           sample_chunk ''https://b.example'' ''Other'',
                                           sample_chunk ''https://a.example'' ''Second title''] \<rparr>)
     (js ''The study utilize a qualitative approach.'')
   = Inr [\<lparr> url = Some (js ''https://a.example''), source_title = js ''First title'',
            snippet = None \<rparr>,
          \<lparr> url = Some (js ''https://b.example''), source_title = js ''Other'',
            snippet = None \<rparr>]"
proof -
  have k: "truthy_opt (API_KEY (sample_env \<lparr> response_text = Some (js ''Two sources.''),
                   groundingChunks = Some [sample_chunk ''https://a.example'' ''First title'',
                                           sample_chunk ''https://b.example'' ''Other'',
                                           sample_chunk ''https://a.example'' ''Second title''] \<rparr>))"
    by (simp add: sample_env_def truthy_opt_def truthy_def js_def)
  have g: "generateContent (sample_env \<lparr> response_text = Some (js ''Two sources.''),
                   groundingChunks = Some [sample_chunk ''https://a.example'' ''First title'',
                                           sample_chunk ''https://b.example'' ''Other'',
                                           sample_chunk ''https://a.example'' ''Second title''] \<rparr>)
             (SourcesRequest (take 1000 (js ''The study utilize a qualitative approach.'')))
           = Inr \<lparr> response_text = Some (js ''Two sources.''),
                   groundingChunks = Some [sample_chunk ''https://a.example'' ''First title'',
                                           sample_chunk ''https://b.example'' ''Other'',
                                           sample_chunk ''https://a.example'' ''Second title''] \<rparr>"
    by (simp add: sample_env_def)
  have c: "groundingChunks \<lparr> response_text = Some (js ''Two sources.''),
                   groundingChunks = Some [sample_chunk ''https://a.example'' ''First title'',
                                           sample_chunk ''https://b.example'' ''Other'',
                                           sample_chunk ''https://a.example'' ''Second title''] \<rparr>
           = Some [sample_chunk ''https://a.example'' ''First title'',
                   sample_chunk ''https://b.example'' ''Other'',
                   sample_chunk ''https://a.example'' ''Second title'']"
    by simp
  obtain result where
    v: "verifySources
          (sample_env \<lparr> response_text = Some (js ''Two sources.''),
                   groundingChunks = Some [sample_chunk ''https://a.example'' ''First title'',
                                           sample_chunk ''https://b.example'' ''Other'',
                                           sample_chunk ''https://a.example'' ''Second title''] \<rparr>)
          (js ''The study utilize a qualitative approach.'') = Inr result"
    and u: "map url result =
              rev (remdups (rev (map uri (List.map_filter web
                [sample_chunk ''https://a.example'' ''First title'',
                 sample_chunk ''https://b.example'' ''Other'',
                 sample_chunk ''https://a.example'' ''Second title'']))))"
    and t: "\<forall>r\<in>set result.
              \<exists>w. find (\<lambda>w. uri w = url r) (List.map_filter web
                     [sample_chunk ''https://a.example'' ''First title'',
                      sample_chunk ''https://b.example'' ''Other'',
                      sample_chunk ''https://a.example'' ''Second title'']) = Some w
                \<and> source_title r =
                    (case web_title w of
                       None \<Rightarrow> js ''External Source''
                     | Some t \<Rightarrow> if t = [] then js ''External Source'' else t)
                \<and> snippet r = None"
    using verifySources_deduplicated [OF k g c] by blast
  from u have u': "map url result = [Some (js ''https://a.example''), Some (js ''https://b.example'')]"
    by (simp add: List.map_filter_simps sample_chunk_def js_def)
  then obtain r1 r2 where rs: "result = [r1, r2]"
    and u1: "url r1 = Some (js ''https://a.example'')"
    and u2: "url r2 = Some (js ''https://b.example'')"
    by (cases result; cases "tl result") auto
  from t rs u1 have "source_title r1 = js ''First title'' \<and> snippet r1 = None"
    by (auto simp: List.map_filter_simps sample_chunk_def js_def)
  moreover from t rs u2 have "source_title r2 = js ''Other'' \<and> snippet r2 = None"
    by (auto simp: List.map_filter_simps sample_chunk_def js_def)
  ultimately have "result =
      [\<lparr> url = Some (js ''https://a.example''), source_title = js ''First title'',
         snippet = None \<rparr>,
       \<lparr> url = Some (js ''https://b.example''), source_title = js ''Other'',
         snippet = None \<rparr>]"
    using rs u1 u2 by simp
  with v show ?thesis by simp
qed

subsection \<open>Responses that do not parse\<close>




text \<open>
  A body that parses is not checked any further: \<open>detectAIContent\<close> hands on whatever
  value the parser produced, and the two list operations fall back to the empty list
  only when the parsed value is not an array.
\<close>

lemma detectAIContent_parsed:
  assumes "truthy_opt (API_KEY env)"
    and "generateContent env (AiDetectionRequest (take 2000 text0)) = Inr response"
    and "response_text response = Some body"
    and "truthy body"
    and "JSON_parse env body = Some parsed"
  shows "detectAIContent env text0 = Inr parsed"
  using assms by (simp add: detectAIContent_def getAiClient_def Let_def)

lemma checkGrammarAndStyle_not_array:
  assumes "truthy_opt (API_KEY env)"
    and "generateContent env (GrammarRequest text0) = Inr response"
    and "response_text response = Some body"
    and "JSON_parse env body = Some parsed"
    and "\<forall>items. parsed \<noteq> JArr items"
  shows "checkGrammarAndStyle env text0 = Inr []"
  using assms
  by (cases parsed) (simp_all add: checkGrammarAndStyle_def getAiClient_def Array_map_def)

text \<open>The operations are rejected when the API key is missing.\<close>

lemma missing_api_key_rejected:
  assumes "\<not> truthy_opt (API_KEY env)"
  shows "checkGrammarAndStyle env text0 = Inl ApiKeyNotFound
       \<and> verifySources env text0 = Inl ApiKeyNotFound
       \<and> verifyTextClaims env text0 = Inl ApiKeyNotFound
       \<and> generateSummary env text0 = Inl ApiKeyNotFound
       \<and> detectAIContent env text0 = Inl ApiKeyNotFound
       \<and> extractTextFromFile env fileBase64 mimeType = Inl ApiKeyNotFound"
  using assms
  by (simp add: checkGrammarAndStyle_def verifySources_def verifyTextClaims_def
      generateSummary_def detectAIContent_def extractTextFromFile_def getAiClient_def)


end
